theory Spec2Isabelle
  imports Main "HOL-Library.Multiset" "HOL-Library.Word"
begin

section \<open>Data model\<close>

text \<open>
  The module under verification is the class \<open>MessageUtils\<close> (message validation, body
  formatting, request construction and seed-data import of an SQS message composer).
  The types are those of \<open>app.component\<close>:
  \<^verbatim>\<open>
  type SqsMessage = { id: string; body: string; attributes: SqsMessageAttribute[]; errors?: string[] };
  type SqsMessageAttribute = { id: string; name: string; type: SqsMessageAttributeType;
                               value: SqsMessageAttributeValue };
  type SqsMessageAttributeValue = Buffer | Uint8Array | Blob | string;
  type SqsMessageAttributeType = 'String' | 'Number' | 'Binary';
  \<close>
  A string is the list of its code units (HOL characters). The attribute type is kept as a
  string: the union \<open>SqsMessageAttributeType\<close> exists at compile time only, the validator
  tests membership at run time and the request builder has a \<open>default\<close> branch for
  everything else.
\<close>

datatype js_error = TypeError | SyntaxError | Error string

datatype SqsMessageAttributeValue =
    Text string               \<comment> \<open>a JavaScript string\<close>
  | Payload "8 word list"     \<comment> \<open>a Buffer, Uint8Array or Blob: an object holding bytes\<close>

record SqsMessageAttribute =
  id :: string
  name :: string
  type :: string
  "value" :: SqsMessageAttributeValue

record SqsMessage =
  id :: string
  body :: string
  attributes :: "SqsMessageAttribute list"
  errors :: "string list option"

text \<open>
  The builtins of the ECMAScript runtime that the module calls are not part of the
  repository. They are a parameter of the model: \<open>JSON.parse\<close> and \<open>JSON.stringify\<close>
  (which may throw, hence the sum type; \<open>'j\<close> is the type of parsed values), and the two
  numeric tests that \<open>isNumeric\<close> performs on an attribute value, \<open>isNaN(x)\<close> and
  \<open>isNaN(parseFloat(x))\<close>.
\<close>

record 'j ecmascript =
  JSON_parse :: "string \<Rightarrow> js_error + 'j"
  JSON_stringify :: "'j \<Rightarrow> js_error + string"
  isNaN :: "SqsMessageAttributeValue \<Rightarrow> bool"
  isNaN_parseFloat :: "SqsMessageAttributeValue \<Rightarrow> bool"

section \<open>Strings\<close>

text \<open>Decimal rendering of a non-negative integer, as \<open>Number.prototype.toString\<close> and
  template literals produce it.\<close>

definition digit :: "nat \<Rightarrow> char" where
  "digit d = ''0123456789'' ! d"

fun toString :: "nat \<Rightarrow> string" where
  "toString n = (if n < 10 then [digit n] else toString (n div 10) @ [digit (n mod 10)])"

declare toString.simps [simp del]

text \<open>\<open>String.prototype.trim\<close> removes white space and line terminators from both ends.
  Within the code units a HOL character can hold these are TAB, LF, VT, FF, CR, SP and
  NBSP.\<close>

definition isWhiteSpace :: "char \<Rightarrow> bool" where
  "isWhiteSpace c = (c \<in> set [CHR 0x09, CHR 0x0A, CHR 0x0B, CHR 0x0C, CHR 0x0D, CHR 0x20, CHR 0xA0])"

definition trim :: "string \<Rightarrow> string" where
  "trim s = rev (dropWhile isWhiteSpace (rev (dropWhile isWhiteSpace s)))"

section \<open>MessageUtils\<close>

subsection \<open>generateRandomId\<close>

text \<open>
  \<^verbatim>\<open>return Math.round(Math.random() * 100000).toString();\<close>
  The state of the random number generator is the sequence of the numbers still to be
  drawn; a draw stands for \<open>Math.round(Math.random() * 100000)\<close>, which lies between 0
  and 100000.
\<close>

type_synonym random = "nat \<Rightarrow> nat"

definition generateRandomId :: "random \<Rightarrow> string \<times> random" where
  "generateRandomId rnd = (toString (min (rnd 0) 100000), \<lambda>n. rnd (Suc n))"

subsection \<open>isJson, formatBody\<close>

text \<open>\<^verbatim>\<open>return text[0] === '{' && text[text.length - 1] === '}';\<close>
  On the empty string both reads give \<open>undefined\<close> and the test is false.\<close>

definition isJson :: "string \<Rightarrow> bool" where
  "isJson text = (case text of [] \<Rightarrow> False | c # _ \<Rightarrow> c = CHR ''{'' \<and> last text = CHR ''}'')"

text \<open>A \<open>try\<close> block whose handler receives the error.\<close>

definition try_catch :: "js_error + 'a \<Rightarrow> (js_error \<Rightarrow> 'a) \<Rightarrow> 'a" where
  "try_catch block handler = (case block of Inl e \<Rightarrow> handler e | Inr x \<Rightarrow> x)"

text \<open>
  \<^verbatim>\<open>
  let text = body.trim();
  try {
      if (MessageUtils.isJson(text)) {
          const obj = JSON.parse(text);
          text = JSON.stringify(obj, null, 4);
      }
  } catch { /* do nothing */ }
  return text;
  \<close>
  The field \<open>JSON_stringify\<close> of the runtime stands for \<open>JSON.stringify(_, null, 4)\<close>;
  \<open>text0\<close> is the parameter \<open>body\<close>.
\<close>

definition formatBody :: "'j ecmascript \<Rightarrow> string \<Rightarrow> string" where
  "formatBody rt text0 =
     (let text = trim text0
      in try_catch
           (if isJson text
            then (case JSON_parse rt text of
                    Inl e \<Rightarrow> Inl e
                  | Inr obj \<Rightarrow> JSON_stringify rt obj)
            else Inr text)
           (\<lambda>_. text))"

subsection \<open>getAttributeTypes, isPropertyUnique, isNumeric\<close>

text \<open>An object literal is the list of its properties in insertion order;
  \<open>Object.keys\<close> lists the property names in that order.\<close>

definition getAttributeTypes :: "(string \<times> string) list" where
  "getAttributeTypes = [(''String'', ''String''), (''Binary'', ''Binary''), (''Number'', ''Number'')]"

definition Object_keys :: "('k \<times> 'v) list \<Rightarrow> 'k list" where
  "Object_keys obj = map fst obj"

text \<open>\<open>Array.prototype.indexOf\<close>: the first index holding the value, or -1. Strict
  equality is equality of the modelled values.\<close>

fun indexOf :: "'v list \<Rightarrow> 'v \<Rightarrow> int" where
  "indexOf [] v = - 1"
| "indexOf (x # xs) v =
     (if x = v then 0 else (let i = indexOf xs v in if i < 0 then - 1 else i + 1))"

text \<open>
  \<^verbatim>\<open>
  const propertyValues = objects.reduce((values, obj) => {
      const value = obj[key];
      if (values.indexOf(value) >= 0) { return values; }
      return [...values, value];
  }, []);
  return propertyValues.length == objects.length;
  \<close>
  The key is the field selector; \<open>collectValue\<close> is the callback of the \<open>reduce\<close>.
\<close>

definition collectValue :: "('obj \<Rightarrow> 'v) \<Rightarrow> 'v list \<Rightarrow> 'obj \<Rightarrow> 'v list" where
  "collectValue key values obj =
     (let v = key obj
      in if indexOf values v \<ge> 0 then values else values @ [v])"

definition isPropertyUnique :: "('obj \<Rightarrow> 'v) \<Rightarrow> 'obj list \<Rightarrow> bool" where
  "isPropertyUnique key objects =
     (let propertyValues = foldl (collectValue key) [] objects
      in length propertyValues = length objects)"

text \<open>\<^verbatim>\<open>return !isNaN(str) && !isNaN(parseFloat(str));\<close>\<close>

definition isNumeric :: "'j ecmascript \<Rightarrow> SqsMessageAttributeValue \<Rightarrow> bool" where
  "isNumeric rt str = (\<not> isNaN rt str \<and> \<not> isNaN_parseFloat rt str)"

subsection \<open>validateMessage\<close>

text \<open>\<open>!attribute.value\<close>: the empty string is the only falsy attribute value; a Buffer,
  Uint8Array or Blob is an object and is truthy whatever it holds.\<close>

definition falsy :: "SqsMessageAttributeValue \<Rightarrow> bool" where
  "falsy v = (case v of Text s \<Rightarrow> s = [] | Payload _ \<Rightarrow> False)"

text \<open>\<open>Array.prototype.forEach\<close> with the index, the callback updating a state (here the
  array \<open>errors\<close> that the callback pushes to).\<close>

fun forEach :: "('a \<Rightarrow> nat \<Rightarrow> 's \<Rightarrow> 's) \<Rightarrow> 'a list \<Rightarrow> nat \<Rightarrow> 's \<Rightarrow> 's" where
  "forEach f [] index s = s"
| "forEach f (x # xs) index s = forEach f xs (Suc index) (f x index s)"

text \<open>The callback of the loop over the attributes (lines 53 to 63).\<close>

definition checkAttribute ::
  "'j ecmascript \<Rightarrow> string list \<Rightarrow> SqsMessageAttribute \<Rightarrow> nat \<Rightarrow> string list \<Rightarrow> string list" where
  "checkAttribute rt attributeTypes attribute index errors0 =
     (let errors1 =
            (if name attribute = []
             then errors0 @ [''Attribute Name at position '' @ toString index @ '' is undefined.'']
             else errors0);
          errors2 =
            (if falsy (value attribute)
             then errors1 @ [''Attribute Value at position '' @ toString index @ '' is undefined.'']
             else if type attribute = ''Number'' \<and> \<not> isNumeric rt (value attribute)
             then errors1 @ [''Attribute value at position '' @ toString index @ '' is not a number.'']
             else errors1)
      in if \<not> list_ex (\<lambda>t. type attribute = t) attributeTypes
         then errors2 @ [''Attribute Data Type at position '' @ toString index @ '' is invalid.'']
         else errors2)"

definition validateMessage :: "'j ecmascript \<Rightarrow> SqsMessage \<Rightarrow> string list option" where
  "validateMessage rt message =
     (let errors0 = (if body message = [] then [''Body is not defined.''] else []);
          attributeTypes = Object_keys getAttributeTypes;
          errors1 =
            (if \<not> isPropertyUnique name (attributes message)
             then errors0 @ [''Attribute Name is not unique.'']
             else errors0);
          errors2 = forEach (checkAttribute rt attributeTypes) (attributes message) 0 errors1
      in if errors2 \<noteq> [] then Some errors2 else None)"

subsection \<open>toRequest\<close>

text \<open>The wire types of the SQS client: \<open>SQS.MessageAttributeValue\<close> (the fields this
  module sets) and \<open>SQS.SendMessageRequest\<close>. The attribute map is an object used as a
  dictionary.\<close>

record MessageAttributeValue =
  DataType :: string
  StringValue :: "SqsMessageAttributeValue option"
  BinaryValue :: "SqsMessageAttributeValue option"

record SendMessageRequest =
  QueueUrl :: string
  MessageBody :: string
  MessageAttributes :: "string \<rightharpoonup> MessageAttributeValue"

text \<open>
  \<^verbatim>\<open>
  switch (attribute.type) {
      case 'String':
      case 'Number': return { DataType: attribute.type, StringValue: attribute.value as string };
      case 'Binary': return { DataType: attribute.type, BinaryValue: attribute.value };
      default: throw new Error(`Could not map unknown attribute type: '${attribute.type}'.`);
  }
  \<close>
\<close>

definition mapAttribute :: "SqsMessageAttribute \<Rightarrow> js_error + MessageAttributeValue" where
  "mapAttribute attribute =
     (if type attribute = ''String'' \<or> type attribute = ''Number''
      then Inr \<lparr>DataType = type attribute, StringValue = Some (value attribute), BinaryValue = None\<rparr>
      else if type attribute = ''Binary''
      then Inr \<lparr>DataType = type attribute, StringValue = None, BinaryValue = Some (value attribute)\<rparr>
      else Inl (Error (''Could not map unknown attribute type: '' @ [CHR 0x27] @ type attribute
                       @ [CHR 0x27] @ ''.'')))"

text \<open>The \<open>reduce\<close> over the attributes: \<open>{ ...map, [attribute.name]: mapAttribute(attribute) }\<close>;
  an exception of \<open>mapAttribute\<close> leaves the loop.\<close>

fun reduceAttributes ::
  "SqsMessageAttribute list \<Rightarrow> (string \<rightharpoonup> MessageAttributeValue)
     \<Rightarrow> js_error + (string \<rightharpoonup> MessageAttributeValue)" where
  "reduceAttributes [] m = Inr m"
| "reduceAttributes (attribute # rest) m =
     (case mapAttribute attribute of
        Inl e \<Rightarrow> Inl e
      | Inr w \<Rightarrow> reduceAttributes rest (m(name attribute \<mapsto> w)))"

definition toRequest :: "string \<Rightarrow> SqsMessage \<Rightarrow> js_error + SendMessageRequest" where
  "toRequest queryUrl message =
     (case reduceAttributes (attributes message) Map.empty of
        Inl e \<Rightarrow> Inl e
      | Inr m \<Rightarrow> Inr \<lparr>QueueUrl = queryUrl, MessageBody = body message, MessageAttributes = m\<rparr>)"

subsection \<open>toMessage\<close>

text \<open>
  The argument has type \<open>unknown\<close> and is cast to \<open>SqsMessage\<close> without a check. Of such an
  item the function reads \<open>body\<close> and \<open>attributes\<close>, either of which may be missing;
  \<open>id\<close> and \<open>errors\<close> are overwritten.
\<close>

record unknown_item =
  item_body :: "string option"
  item_attributes :: "SqsMessageAttribute list option"

text \<open>\<open>attributes.map((attribute) => ({ ...attribute, id: generateRandomId() }))\<close>\<close>

fun freshAttributes :: "SqsMessageAttribute list \<Rightarrow> random \<Rightarrow> SqsMessageAttribute list \<times> random" where
  "freshAttributes [] rnd = ([], rnd)"
| "freshAttributes (attribute # rest) rnd =
     (let (new_id, rnd1) = generateRandomId rnd;
          (rest', rnd2) = freshAttributes rest rnd1
      in (attribute\<lparr>SqsMessageAttribute.id := new_id\<rparr> # rest', rnd2))"

text \<open>
  \<^verbatim>\<open>
  const message = item as SqsMessage;
  return {
      ...message,
      id: MessageUtils.generateRandomId(),
      body: MessageUtils.formatBody(message.body),
      attributes: message.attributes?.map((attribute) => ({ ...attribute,
                      id: MessageUtils.generateRandomId() })) ?? [],
      errors: MessageUtils.validateMessage(message),
  };
  \<close>
  The properties are evaluated in this order. \<open>formatBody\<close> calls \<open>trim\<close> on the body and
  throws a TypeError when there is none; \<open>validateMessage\<close> receives the item itself
  and calls \<open>reduce\<close> (in \<open>isPropertyUnique\<close>) on its attributes, which throws a TypeError
  when there are none.
\<close>

definition toMessage :: "'j ecmascript \<Rightarrow> unknown_item \<Rightarrow> random \<Rightarrow> js_error + (SqsMessage \<times> random)" where
  "toMessage rt item rnd =
     (let (new_id, rnd1) = generateRandomId rnd
      in case item_body item of
           None \<Rightarrow> Inl TypeError
         | Some raw_body \<Rightarrow>
             (let new_body = formatBody rt raw_body;
                  (new_attributes, rnd2) =
                     (case item_attributes item of
                        None \<Rightarrow> ([], rnd1)
                      | Some raw_attributes \<Rightarrow> freshAttributes raw_attributes rnd1)
              in case item_attributes item of
                   None \<Rightarrow> Inl TypeError
                 | Some raw_attributes \<Rightarrow>
                     Inr (\<lparr>SqsMessage.id = new_id, body = new_body, attributes = new_attributes,
                           errors = validateMessage rt
                                      \<lparr>SqsMessage.id = [], body = raw_body,
                                       attributes = raw_attributes, errors = None\<rparr>\<rparr>,
                          rnd2)))"

section \<open>Specification-level definitions\<close>

text \<open>The error list behind the result of the validator: \<open>undefined\<close> stands for no
  error.\<close>

definition errorsOf :: "string list option \<Rightarrow> string list" where
  "errorsOf r = (case r of None \<Rightarrow> [] | Some es \<Rightarrow> es)"

text \<open>
  The per-attribute rule in the words of the specification: name empty; value empty, else
  type Number and value not numeric; type not one of String, Number, Binary. This is what
  the loop of \<open>validateMessage\<close> is compared with.
\<close>

definition spec_attributeErrors :: "'j ecmascript \<Rightarrow> nat \<Rightarrow> SqsMessageAttribute \<Rightarrow> string list" where
  "spec_attributeErrors rt index attribute =
     (if name attribute = []
      then [''Attribute Name at position '' @ toString index @ '' is undefined.''] else [])
     @ (if value attribute = Text []
        then [''Attribute Value at position '' @ toString index @ '' is undefined.'']
        else if type attribute = ''Number'' \<and> \<not> isNumeric rt (value attribute)
        then [''Attribute value at position '' @ toString index @ '' is not a number.'']
        else [])
     @ (if type attribute \<notin> {''String'', ''Number'', ''Binary''}
        then [''Attribute Data Type at position '' @ toString index @ '' is invalid.''] else [])"

text \<open>The three parts of the error list: the body check, the uniqueness check, and the
  loop over the attributes with their positions.\<close>

definition bodyErrors :: "SqsMessage \<Rightarrow> string list" where
  "bodyErrors message = (if body message = [] then [''Body is not defined.''] else [])"

definition uniquenessErrors :: "SqsMessage \<Rightarrow> string list" where
  "uniquenessErrors message =
     (if distinct (map name (attributes message)) then [] else [''Attribute Name is not unique.''])"

definition attributeErrors :: "'j ecmascript \<Rightarrow> SqsMessage \<Rightarrow> string list" where
  "attributeErrors rt message =
     concat (map (\<lambda>(i, a). spec_attributeErrors rt i a) (enumerate 0 (attributes message)))"

text \<open>The wire record that the specification prescribes for an attribute of a legal type.\<close>

definition spec_wire :: "SqsMessageAttribute \<Rightarrow> MessageAttributeValue" where
  "spec_wire attribute =
     (if type attribute = ''Binary''
      then \<lparr>DataType = type attribute, StringValue = None, BinaryValue = Some (value attribute)\<rparr>
      else \<lparr>DataType = type attribute, StringValue = Some (value attribute), BinaryValue = None\<rparr>)"

text \<open>The attribute map built from the prescribed wire records, a later attribute
  replacing an earlier one of the same name.\<close>

fun wireMap ::
  "SqsMessageAttribute list \<Rightarrow> (string \<rightharpoonup> MessageAttributeValue) \<Rightarrow> (string \<rightharpoonup> MessageAttributeValue)" where
  "wireMap [] m = m"
| "wireMap (a # as) m = wireMap as (m(name a \<mapsto> spec_wire a))"


section \<open>A reference runtime\<close>

text \<open>
  A concrete instance of the runtime parameter. It is used to evaluate the model on
  concrete inputs and to show that what the theorems below assume of a runtime is met by
  an implementation. It covers a fragment of ECMAScript and agrees with it there:
  \<^item> the numeric tests accept signed decimal literals with an optional fraction (\<open>42\<close>,
    \<open>-3.5\<close>) given as strings; everything else counts as not a number;
  \<^item> \<open>JSON.parse\<close> accepts the JSON texts whose numbers are integers of magnitude at
    most \<open>2^53 - 1\<close> written without fraction and exponent (the integers a double holds
    exactly), whose strings stay within the code units a HOL character can hold (escapes
    \<open>\u00XX\<close>), and whose objects have distinct keys none of which consists of digits (for
    these the properties of the parsed object are in source order); every other text,
    also JSON outside the fragment, is a SyntaxError;
  \<^item> \<open>JSON.stringify(_, null, 4)\<close> is the serialisation of ECMA-262 with a gap of four
    spaces (\<open>SerializeJSONProperty\<close>, \<open>QuoteJSONString\<close>).
\<close>

subsection \<open>Numeric tests\<close>

definition decimalDigits :: "string \<Rightarrow> bool" where
  "decimalDigits s = (s \<noteq> [] \<and> list_all (\<lambda>c. c \<in> set ''0123456789'') s)"

definition decimalLiteral :: "string \<Rightarrow> bool" where
  "decimalLiteral s =
     (let unsigned = (case s of [] \<Rightarrow> [] | c # r \<Rightarrow> if c = CHR ''-'' \<or> c = CHR ''+'' then r else s);
          integral = takeWhile (\<lambda>c. c \<noteq> CHR ''.'') unsigned;
          fraction = dropWhile (\<lambda>c. c \<noteq> CHR ''.'') unsigned
      in decimalDigits integral \<and> (fraction = [] \<or> decimalDigits (tl fraction)))"

definition notDecimal :: "SqsMessageAttributeValue \<Rightarrow> bool" where
  "notDecimal v = (case v of Text s \<Rightarrow> \<not> decimalLiteral s | Payload _ \<Rightarrow> True)"

subsection \<open>JSON values and tokens\<close>

datatype json =
    JNull | JBool bool | JNumber int | JString string
  | JArray "json list" | JObject "(string \<times> json) list"

datatype token =
    LBrace | RBrace | LBracket | RBracket | Colon | Comma
  | TString string | TNumber int | TTrue | TFalse | TNull

subsection \<open>Printing\<close>

text \<open>\<open>QuoteJSONString\<close>: the quotation mark, the backslash and the control characters are
  escaped, seven of them by their short forms and the other control characters as
  \<open>\u00xx\<close> with lower-case hexadecimal digits; every other character stands for itself.\<close>

definition hexDigit :: "nat \<Rightarrow> char" where
  "hexDigit d = ''0123456789abcdef'' ! d"

definition escapeChar :: "char \<Rightarrow> string" where
  "escapeChar c =
     (if c = CHR 0x22 then [CHR 0x5C, CHR 0x22]
      else if c = CHR 0x5C then [CHR 0x5C, CHR 0x5C]
      else if c = CHR 0x08 then [CHR 0x5C, CHR ''b'']
      else if c = CHR 0x09 then [CHR 0x5C, CHR ''t'']
      else if c = CHR 0x0A then [CHR 0x5C, CHR ''n'']
      else if c = CHR 0x0C then [CHR 0x5C, CHR ''f'']
      else if c = CHR 0x0D then [CHR 0x5C, CHR ''r'']
      else if (of_char c :: nat) < 32
      then [CHR 0x5C, CHR ''u'', CHR ''0'', CHR ''0'',
            hexDigit ((of_char c :: nat) div 16), hexDigit ((of_char c :: nat) mod 16)]
      else [c])"

definition quoteJSONString :: "string \<Rightarrow> string" where
  "quoteJSONString s = CHR 0x22 # concat (map escapeChar s) @ [CHR 0x22]"

text \<open>An integer of the fragment prints as its decimal digits (\<open>Number::toString\<close>).\<close>

definition printNumber :: "int \<Rightarrow> string" where
  "printNumber n = (if n < 0 then CHR ''-'' # toString (nat (- n)) else toString (nat n))"

text \<open>\<open>SerializeJSONObject\<close> and \<open>SerializeJSONArray\<close> with a gap of four spaces: an empty
  container prints as its two brackets; otherwise every item starts a line indented by
  four more spaces, the items are separated by commas, a key is followed by a colon and a
  space, and the closing bracket has a line of its own at the indentation of the
  container.\<close>

definition newline :: "nat \<Rightarrow> string" where
  "newline indent = CHR 0x0A # replicate indent (CHR '' '')"

fun serialize :: "nat \<Rightarrow> json \<Rightarrow> string" where
  "serialize indent JNull = ''null''"
| "serialize indent (JBool b) = (if b then ''true'' else ''false'')"
| "serialize indent (JNumber n) = printNumber n"
| "serialize indent (JString s) = quoteJSONString s"
| "serialize indent (JArray []) = ''[]''"
| "serialize indent (JArray (v # vs)) =
     ''['' @ newline (indent + 4) @ serialize (indent + 4) v
     @ concat (map (\<lambda>v. '','' @ newline (indent + 4) @ serialize (indent + 4) v) vs)
     @ newline indent @ '']''"
| "serialize indent (JObject []) = ''{}''"
| "serialize indent (JObject (m # ms)) =
     ''{'' @ newline (indent + 4) @ quoteJSONString (fst m) @ '': '' @ serialize (indent + 4) (snd m)
     @ concat (map (\<lambda>m. '','' @ newline (indent + 4) @ quoteJSONString (fst m) @ '': ''
                          @ serialize (indent + 4) (snd m)) ms)
     @ newline indent @ ''}''"

subsection \<open>Lexing\<close>

text \<open>The white space of JSON: tab, line feed, carriage return and space.\<close>

definition isJsonWhiteSpace :: "char \<Rightarrow> bool" where
  "isJsonWhiteSpace c = (c \<in> set [CHR 0x09, CHR 0x0A, CHR 0x0D, CHR 0x20])"

definition isDigit :: "char \<Rightarrow> bool" where
  "isDigit c = (c \<in> set ''0123456789'')"

definition digitsValue :: "string \<Rightarrow> int" where
  "digitsValue ds = foldl (\<lambda>n c. 10 * n + (of_char c - 48)) 0 ds"

text \<open>Escapes in strings: the short forms, and four hexadecimal digits, of which the
  fragment takes those up to \<open>\u00ff\<close>.\<close>

definition hexValue :: "char \<Rightarrow> nat option" where
  "hexValue c =
     (if isDigit c then Some (of_char c - 48)
      else if c \<in> set ''abcdef'' then Some (of_char c - 87)
      else if c \<in> set ''ABCDEF'' then Some (of_char c - 55)
      else None)"

definition simpleEscape :: "char \<Rightarrow> char option" where
  "simpleEscape e =
     (if e = CHR 0x22 \<or> e = CHR 0x5C \<or> e = CHR ''/'' then Some e
      else if e = CHR ''b'' then Some (CHR 0x08)
      else if e = CHR ''t'' then Some (CHR 0x09)
      else if e = CHR ''n'' then Some (CHR 0x0A)
      else if e = CHR ''f'' then Some (CHR 0x0C)
      else if e = CHR ''r'' then Some (CHR 0x0D)
      else None)"

definition unicodeEscape :: "char \<Rightarrow> char \<Rightarrow> char \<Rightarrow> char \<Rightarrow> char option" where
  "unicodeEscape h1 h2 h3 h4 =
     (case (hexValue h1, hexValue h2, hexValue h3, hexValue h4) of
        (Some a, Some b, Some c, Some d) \<Rightarrow>
          if a = 0 \<and> b = 0 then Some (char_of (16 * c + d)) else None
      | _ \<Rightarrow> None)"

text \<open>The characters of a string after its opening quotation mark up to the closing
  one, together with the text after it. A control character must be escaped.\<close>

fun lex_string :: "string \<Rightarrow> (string \<times> string) option" where
  "lex_string [] = None"
| "lex_string (c # cs) =
     (if c = CHR 0x22 then Some ([], cs)
      else if c = CHR 0x5C
      then (case cs of
              [] \<Rightarrow> None
            | e # cs1 \<Rightarrow>
                if e = CHR ''u''
                then (case cs1 of
                        h1 # h2 # h3 # h4 # cs2 \<Rightarrow>
                          (case unicodeEscape h1 h2 h3 h4 of
                             None \<Rightarrow> None
                           | Some u \<Rightarrow> map_option (\<lambda>(s, r). (u # s, r)) (lex_string cs2))
                      | _ \<Rightarrow> None)
                else (case simpleEscape e of
                        None \<Rightarrow> None
                      | Some u \<Rightarrow> map_option (\<lambda>(s, r). (u # s, r)) (lex_string cs1)))
      else if (of_char c :: nat) < 32 then None
      else map_option (\<lambda>(s, r). (c # s, r)) (lex_string cs))"

text \<open>A number: an optional minus sign and digits without a leading zero. A fraction,
  an exponent or a magnitude above \<open>2^53 - 1\<close> is outside the fragment.\<close>

definition lex_number :: "string \<Rightarrow> (int \<times> string) option" where
  "lex_number s =
     (let negative = (take 1 s = ''-'');
          u = (if negative then drop 1 s else s);
          ds = takeWhile isDigit u;
          rest = dropWhile isDigit u
      in if ds = [] \<or> (length ds > 1 \<and> take 1 ds = ''0'') then None
         else if take 1 rest \<in> {''.'', ''e'', ''E''} then None
         else if digitsValue ds > 9007199254740991 then None
         else Some (if negative then - digitsValue ds else digitsValue ds, rest))"

text \<open>The token at the start of a text that does not begin with white space, and the
  text after it.\<close>

fun stripPrefix :: "string \<Rightarrow> string \<Rightarrow> string option" where
  "stripPrefix [] s = Some s"
| "stripPrefix (p # ps) [] = None"
| "stripPrefix (p # ps) (c # cs) = (if p = c then stripPrefix ps cs else None)"

definition punctuation :: "char \<Rightarrow> token option" where
  "punctuation c =
     (if c = CHR ''{'' then Some LBrace
      else if c = CHR ''}'' then Some RBrace
      else if c = CHR ''['' then Some LBracket
      else if c = CHR '']'' then Some RBracket
      else if c = CHR '':'' then Some Colon
      else if c = CHR '','' then Some Comma
      else None)"

definition literal :: "string \<Rightarrow> (token \<times> string) option" where
  "literal input =
     (case stripPrefix ''true'' input of
        Some rest \<Rightarrow> Some (TTrue, rest)
      | None \<Rightarrow>
          (case stripPrefix ''false'' input of
             Some rest \<Rightarrow> Some (TFalse, rest)
           | None \<Rightarrow>
               (case stripPrefix ''null'' input of
                  Some rest \<Rightarrow> Some (TNull, rest)
                | None \<Rightarrow> None)))"

definition next_token :: "string \<Rightarrow> (token \<times> string) option" where
  "next_token input =
     (case input of
        [] \<Rightarrow> None
      | c # cs \<Rightarrow>
          (case punctuation c of
             Some t \<Rightarrow> Some (t, cs)
           | None \<Rightarrow>
               if c = CHR 0x22 then map_option (\<lambda>(s, rest). (TString s, rest)) (lex_string cs)
               else if c = CHR ''-'' \<or> isDigit c
               then map_option (\<lambda>(n, rest). (TNumber n, rest)) (lex_number input)
               else literal input))"

text \<open>The tokens of a text; \<open>None\<close> when some part of it is no token.\<close>

function tokenize :: "string \<Rightarrow> token list option" where
  "tokenize input =
     (case dropWhile isJsonWhiteSpace input of
        [] \<Rightarrow> Some []
      | c # cs \<Rightarrow>
          (case next_token (c # cs) of
             None \<Rightarrow> None
           | Some (t, rest) \<Rightarrow> map_option (Cons t) (tokenize rest)))"
  by pat_completeness auto
termination
proof (relation "measure length")
  show "wf (measure length)" by simp
next
  have string_shorter: "length rest < length cs" if "lex_string cs = Some (s, rest)" for cs s rest
    using that
  proof (induction cs arbitrary: s rest rule: length_induct)
    case (1 xs)
    have IH: "\<And>ys s rest. length ys < length xs \<Longrightarrow> lex_string ys = Some (s, rest)
                \<Longrightarrow> length rest < length ys"
      using "1.IH" by blast
    show ?case
    proof (cases xs)
      case Nil
      with "1.prems" show ?thesis by simp
    next
      case (Cons c cs)
      with "1.prems" show ?thesis
        by (auto split: if_splits list.splits option.splits dest!: IH [rotated])
    qed
  qed
  have number_shorter: "length rest < length cs" if a: "lex_number cs = Some (n, rest)" for cs n rest
  proof -
    let ?u = "if take 1 cs = ''-'' then drop 1 cs else cs"
    from a have "takeWhile isDigit ?u \<noteq> []" and r: "rest = dropWhile isDigit ?u"
      by (auto simp: lex_number_def Let_def split: if_splits)
    then obtain d u where "?u = d # u" and "isDigit d"
      by (cases ?u) (auto split: if_splits)
    then have "length (dropWhile isDigit ?u) \<le> length u" and "length u < length ?u"
      by (simp_all add: length_dropWhile_le)
    with r have "length rest < length ?u" by simp
    then show ?thesis
      by (simp split: if_splits)
  qed
  have prefix: "s = p @ rest" if "stripPrefix p s = Some rest" for p s rest
    using that by (induction p s rule: stripPrefix.induct) (auto split: if_splits)
  have literal_shorter: "length rest < length s" if "literal s = Some (t, rest)" for s t rest
    using that unfolding literal_def by (auto split: option.splits dest!: prefix)
  fix input :: string and c cs x t rest
  assume d: "dropWhile isJsonWhiteSpace input = c # cs" and "next_token (c # cs) = Some x"
    and "(t, rest) = x"
  then have n: "next_token (c # cs) = Some (t, rest)" by simp
  then consider "rest = cs"
    | s where "lex_string cs = Some (s, rest)"
    | n where "lex_number (c # cs) = Some (n, rest)"
    | "literal (c # cs) = Some (t, rest)"
    unfolding next_token_def
    by (auto split: if_splits option.splits)
  then have "length rest < length (c # cs)"
  proof cases
    case 1
    then show ?thesis by simp
  next
    case 2
    then have "length rest < length cs" by (rule string_shorter)
    then show ?thesis by simp
  next
    case 3
    then show ?thesis by (rule number_shorter)
  next
    case 4
    then show ?thesis by (rule literal_shorter)
  qed
  also have "\<dots> \<le> length input"
    using length_dropWhile_le [of isJsonWhiteSpace input] by (simp add: d)
  finally show "(rest, input) \<in> measure length" by simp
qed

declare tokenize.simps [simp del]

subsection \<open>Parsing\<close>

text \<open>
  The parser reads the tokens one at a time. Its state is what it expects next and the
  stack of the containers that are open: an array with the elements read so far, an object
  with the members read so far, or an object with a member whose key has been read and
  whose value is being read.
\<close>

datatype frame =
    InArray "json list"
  | InObject "(string \<times> json) list"
  | InMember "(string \<times> json) list" string

datatype mode =
    WantValue | WantValueOrClose | WantKey | WantKeyOrClose | WantColon string
  | WantCommaOrClose | Finished json

text \<open>A complete value goes to the innermost open container, or is the result.\<close>

definition deliver :: "json \<Rightarrow> frame list \<Rightarrow> (mode \<times> frame list) option" where
  "deliver v stack =
     (case stack of
        [] \<Rightarrow> Some (Finished v, [])
      | InArray es # below \<Rightarrow> Some (WantCommaOrClose, InArray (es @ [v]) # below)
      | InMember ms k # below \<Rightarrow> Some (WantCommaOrClose, InObject (ms @ [(k, v)]) # below)
      | InObject ms # below \<Rightarrow> None)"

text \<open>The condition of the fragment on the keys of an object: distinct, and none a
  string of digits.\<close>

definition acceptableKeys :: "(string \<times> json) list \<Rightarrow> bool" where
  "acceptableKeys ms =
     (distinct (map fst ms) \<and> list_all (\<lambda>m. \<not> (fst m \<noteq> [] \<and> list_all isDigit (fst m))) ms)"

definition startValue :: "token \<Rightarrow> frame list \<Rightarrow> (mode \<times> frame list) option" where
  "startValue t stack =
     (case t of
        TString s \<Rightarrow> deliver (JString s) stack
      | TNumber n \<Rightarrow> deliver (JNumber n) stack
      | TTrue \<Rightarrow> deliver (JBool True) stack
      | TFalse \<Rightarrow> deliver (JBool False) stack
      | TNull \<Rightarrow> deliver JNull stack
      | LBracket \<Rightarrow> Some (WantValueOrClose, InArray [] # stack)
      | LBrace \<Rightarrow> Some (WantKeyOrClose, InObject [] # stack)
      | _ \<Rightarrow> None)"

definition closeArray :: "frame list \<Rightarrow> (mode \<times> frame list) option" where
  "closeArray stack =
     (case stack of InArray es # below \<Rightarrow> deliver (JArray es) below | _ \<Rightarrow> None)"

definition closeObject :: "frame list \<Rightarrow> (mode \<times> frame list) option" where
  "closeObject stack =
     (case stack of
        InObject ms # below \<Rightarrow> if acceptableKeys ms then deliver (JObject ms) below else None
      | _ \<Rightarrow> None)"

definition step :: "mode \<times> frame list \<Rightarrow> token \<Rightarrow> (mode \<times> frame list) option" where
  "step st t =
     (case st of (m, stack) \<Rightarrow>
        (case m of
           WantValue \<Rightarrow> startValue t stack
         | WantValueOrClose \<Rightarrow> if t = RBracket then closeArray stack else startValue t stack
         | WantKey \<Rightarrow> (case t of TString k \<Rightarrow> Some (WantColon k, stack) | _ \<Rightarrow> None)
         | WantKeyOrClose \<Rightarrow>
             (case t of TString k \<Rightarrow> Some (WantColon k, stack) | RBrace \<Rightarrow> closeObject stack | _ \<Rightarrow> None)
         | WantColon k \<Rightarrow>
             (if t = Colon
              then (case stack of
                      InObject ms # below \<Rightarrow> Some (WantValue, InMember ms k # below)
                    | _ \<Rightarrow> None)
              else None)
         | WantCommaOrClose \<Rightarrow>
             (case t of
                Comma \<Rightarrow>
                  (case stack of
                     InArray es # below \<Rightarrow> Some (WantValue, stack)
                   | InObject ms # below \<Rightarrow> Some (WantKey, stack)
                   | _ \<Rightarrow> None)
              | RBracket \<Rightarrow> closeArray stack
              | RBrace \<Rightarrow> closeObject stack
              | _ \<Rightarrow> None)
         | Finished v \<Rightarrow> None))"

fun run :: "mode \<times> frame list \<Rightarrow> token list \<Rightarrow> (mode \<times> frame list) option" where
  "run st [] = Some st"
| "run st (t # ts) = (case step st t of None \<Rightarrow> None | Some st' \<Rightarrow> run st' ts)"

text \<open>\<open>JSON.parse\<close>: the text must be one value.\<close>

definition parse :: "string \<Rightarrow> js_error + json" where
  "parse text =
     (case tokenize text of
        None \<Rightarrow> Inl SyntaxError
      | Some ts \<Rightarrow>
          (case run (WantValue, []) ts of
             Some (Finished v, []) \<Rightarrow> Inr v
           | _ \<Rightarrow> Inl SyntaxError))"

subsection \<open>Token sequence and well-formed values\<close>



text \<open>What follows a printed value inside printed text: nothing, a comma or a line
  feed.\<close>

definition delimited :: "string \<Rightarrow> bool" where
  "delimited rest = (case rest of [] \<Rightarrow> True | c # _ \<Rightarrow> c = CHR '','' \<or> c = CHR 0x0A)"






subsection \<open>The runtime\<close>

definition json_runtime :: "json ecmascript" where
  "json_runtime =
     \<lparr>JSON_parse = parse,
      JSON_stringify = (\<lambda>v. Inr (serialize 0 v)),
      isNaN = notDecimal,
      isNaN_parseFloat = notDecimal\<rparr>"

text \<open>A random source for evaluation: the draws 7, 8, 9, ...\<close>

definition counting :: random where
  "counting n = 7 + n"

section \<open>Example inputs\<close>

definition blank_message :: SqsMessage where
  "blank_message = \<lparr>SqsMessage.id = ''1'', body = '' '', attributes = [], errors = None\<rparr>"

definition faulty_message :: SqsMessage where
  "faulty_message =
     \<lparr>SqsMessage.id = ''1'', body = '''',
      attributes =
        [\<lparr>SqsMessageAttribute.id = ''2'', name = '''', type = ''Number'', value = Text ''abc''\<rparr>,
         \<lparr>SqsMessageAttribute.id = ''3'', name = '''', type = ''Float'', value = Text ''''\<rparr>],
      errors = None\<rparr>"

definition valid_message :: SqsMessage where
  "valid_message =
     \<lparr>SqsMessage.id = ''1'', body = ''connection test'',
      attributes =
        [\<lparr>SqsMessageAttribute.id = ''2'', name = ''a'', type = ''String'', value = Text ''x''\<rparr>,
         \<lparr>SqsMessageAttribute.id = ''3'', name = ''b'', type = ''Number'', value = Text ''5''\<rparr>,
         \<lparr>SqsMessageAttribute.id = ''4'', name = ''c'', type = ''Binary'', value = Payload [1, 2]\<rparr>],
      errors = None\<rparr>"


definition bare_item :: unknown_item where
  "bare_item = \<lparr>item_body = Some ''hello'', item_attributes = None\<rparr>"




section \<open>The uniqueness check\<close>

lemma indexOf_nonneg_iff: "indexOf xs v \<ge> 0 \<longleftrightarrow> v \<in> set xs"
  by (induction xs) (auto simp: Let_def)

lemma length_foldl_collectValue_le:
  "length (foldl (collectValue key) acc objs) \<le> length acc + length objs"
proof (induction objs arbitrary: acc)
  case Nil
  show ?case by simp
next
  case (Cons obj objs)
  have "length (collectValue key acc obj) \<le> Suc (length acc)"
    by (simp add: collectValue_def Let_def)
  with Cons.IH [of "collectValue key acc obj"] show ?case by simp
qed

lemma length_foldl_collectValue_eq:
  "length (foldl (collectValue key) acc objs) = length acc + length objs
     \<longleftrightarrow> distinct (map key objs) \<and> set acc \<inter> key ` set objs = {}"
proof (induction objs arbitrary: acc)
  case Nil
  show ?case by simp
next
  case (Cons obj objs)
  show ?case
  proof (cases "key obj \<in> set acc")
    case True
    then have c: "collectValue key acc obj = acc"
      by (simp add: collectValue_def Let_def indexOf_nonneg_iff)
    have "length (foldl (collectValue key) acc objs) \<le> length acc + length objs"
      by (rule length_foldl_collectValue_le)
    then have "length (foldl (collectValue key) acc objs) \<noteq> length acc + length (obj # objs)"
      by simp
    with True c show ?thesis by auto
  next
    case False
    then have c: "collectValue key acc obj = acc @ [key obj]"
      by (simp add: collectValue_def Let_def indexOf_nonneg_iff)
    from False show ?thesis
      using Cons.IH [of "acc @ [key obj]"] by (auto simp: c)
  qed
qed

lemma isPropertyUnique_distinct: "isPropertyUnique key objects \<longleftrightarrow> distinct (map key objects)"
  using length_foldl_collectValue_eq [of key "[]" objects]
  by (simp add: isPropertyUnique_def Let_def)

text \<open>
  Claim C9. For every list of records and every field selector, \<open>isPropertyUnique\<close> is
  true exactly when the selected values are pairwise distinct across the list; it is true
  for the empty list; and the result is the same for every permutation of the list.
\<close>

theorem isPropertyUnique_pairwise_distinct:
  "(isPropertyUnique key objects \<longleftrightarrow>
      (\<forall>i < length objects. \<forall>j < length objects. i \<noteq> j \<longrightarrow> key (objects ! i) \<noteq> key (objects ! j)))
   \<and> isPropertyUnique key []
   \<and> (\<forall>objects'. mset objects' = mset objects \<longrightarrow>
         isPropertyUnique key objects' = isPropertyUnique key objects)"
proof (intro conjI allI impI)
  show "isPropertyUnique key objects \<longleftrightarrow>
      (\<forall>i < length objects. \<forall>j < length objects. i \<noteq> j \<longrightarrow> key (objects ! i) \<noteq> key (objects ! j))"
    by (simp add: isPropertyUnique_distinct distinct_conv_nth)
next
  show "isPropertyUnique key []"
    by (simp add: isPropertyUnique_distinct)
next
  fix objects' :: "'a list"
  assume "mset objects' = mset objects"
  then have "mset (map key objects') = mset (map key objects)"
    by simp
  then have "distinct (map key objects') = distinct (map key objects)"
    by (rule mset_eq_imp_distinct_iff)
  then show "isPropertyUnique key objects' = isPropertyUnique key objects"
    by (simp add: isPropertyUnique_distinct)
qed

theorem isPropertyUnique_pairwise_distinct_witness:
  "isPropertyUnique fst [(1::nat, True), (2, True)]
   \<and> \<not> isPropertyUnique fst [(1::nat, True), (2, False), (1, False)]
   \<and> isPropertyUnique fst [(2::nat, True), (1, True)] = isPropertyUnique fst [(1::nat, True), (2, True)]"
proof -
  have p: "mset [(2::nat, True), (1, True)] = mset [(1::nat, True), (2, True)]"
    by simp
  have d: "\<not> (\<forall>i < length [(1::nat, True), (2, False), (1, False)].
              \<forall>j < length [(1::nat, True), (2, False), (1, False)].
                 i \<noteq> j \<longrightarrow> fst ([(1::nat, True), (2, False), (1, False)] ! i)
                            \<noteq> fst ([(1::nat, True), (2, False), (1, False)] ! j))"
  proof
    assume a: "\<forall>i < length [(1::nat, True), (2, False), (1, False)].
              \<forall>j < length [(1::nat, True), (2, False), (1, False)].
                 i \<noteq> j \<longrightarrow> fst ([(1::nat, True), (2, False), (1, False)] ! i)
                            \<noteq> fst ([(1::nat, True), (2, False), (1, False)] ! j)"
    from a [rule_format, of 0 2] show False by simp
  qed
  have e: "\<forall>i < length [(1::nat, True), (2, True)]. \<forall>j < length [(1::nat, True), (2, True)].
             i \<noteq> j \<longrightarrow> fst ([(1::nat, True), (2, True)] ! i) \<noteq> fst ([(1::nat, True), (2, True)] ! j)"
    by (auto simp: less_Suc_eq)
  show ?thesis
    using isPropertyUnique_pairwise_distinct [of fst "[(1::nat, True), (2, True)]"]
      isPropertyUnique_pairwise_distinct [of fst "[(1::nat, True), (2, False), (1, False)]"]
      p d e
    by blast
qed

section \<open>The validator\<close>

lemma falsy_iff: "falsy v \<longleftrightarrow> v = Text []"
  by (cases v) (simp_all add: falsy_def)

lemma attributeTypes_member:
  "list_ex (\<lambda>t. ty = t) (Object_keys getAttributeTypes) \<longleftrightarrow> ty \<in> {''String'', ''Number'', ''Binary''}"
  unfolding Object_keys_def getAttributeTypes_def by auto

lemma checkAttribute_spec:
  "checkAttribute rt (Object_keys getAttributeTypes) attribute index errs
     = errs @ spec_attributeErrors rt index attribute"
  unfolding checkAttribute_def spec_attributeErrors_def Let_def attributeTypes_member falsy_iff
  by simp

lemma forEach_checkAttribute:
  "forEach (checkAttribute rt (Object_keys getAttributeTypes)) as index errs
     = errs @ concat (map (\<lambda>(i, a). spec_attributeErrors rt i a) (enumerate index as))"
  by (induction as arbitrary: index errs) (simp_all add: checkAttribute_spec)

lemma validateMessage_errors:
  "errorsOf (validateMessage rt message)
     = bodyErrors message @ uniquenessErrors message @ attributeErrors rt message"
  unfolding validateMessage_def Let_def forEach_checkAttribute errorsOf_def
    bodyErrors_def uniquenessErrors_def attributeErrors_def isPropertyUnique_distinct
  by simp

lemma validateMessage_None_iff:
  "validateMessage rt message = None \<longleftrightarrow> errorsOf (validateMessage rt message) = []"
  unfolding validateMessage_def Let_def errorsOf_def by simp


lemmas runtime_simps =
  json_runtime_def notDecimal_def decimalLiteral_def decimalDigits_def

lemmas validate_eval =
  spec_attributeErrors_def isNumeric_def isPropertyUnique_distinct toString.simps digit_def



lemma body_message_not_attribute_error:
  "''Body is not defined.'' \<notin> set (spec_attributeErrors rt i a)"
  by (simp add: spec_attributeErrors_def)

lemma unique_message_not_attribute_error:
  "''Attribute Name is not unique.'' \<notin> set (spec_attributeErrors rt i a)"
  by (simp add: spec_attributeErrors_def)

lemma count_attributeErrors_body:
  "count_list (attributeErrors rt message) ''Body is not defined.'' = 0"
  by (auto simp: attributeErrors_def count_list_0_iff body_message_not_attribute_error)

lemma count_attributeErrors_unique:
  "count_list (attributeErrors rt message) ''Attribute Name is not unique.'' = 0"
  by (auto simp: attributeErrors_def count_list_0_iff unique_message_not_attribute_error)

text \<open>
  Claim C2, as amended. The validator tests the body it is given and formats nothing: the
  error \<open>Body is not defined.\<close> occurs exactly once in the result when the body of the
  message is the empty string, and does not occur otherwise.
\<close>

theorem validateMessage_body_error_once:
  "count_list (errorsOf (validateMessage rt message)) ''Body is not defined.''
     = (if body message = [] then 1 else 0)"
  by (simp add: validateMessage_errors count_attributeErrors_body bodyErrors_def uniquenessErrors_def)

theorem validateMessage_body_error_once_witness:
  "count_list (errorsOf (validateMessage json_runtime faulty_message)) ''Body is not defined.'' = 1
   \<and> count_list (errorsOf (validateMessage json_runtime blank_message)) ''Body is not defined.'' = 0"
  using validateMessage_body_error_once [of json_runtime faulty_message]
    validateMessage_body_error_once [of json_runtime blank_message]
  by (simp add: faulty_message_def blank_message_def)

text \<open>
  Claim C2 as stated fails: the body of \<open>blank_message\<close> is one space, which is empty
  after body formatting, and the validator reports nothing.
\<close>

theorem validateMessage_blank_body_counterexample:
  "\<not> (formatBody json_runtime (body blank_message) = [] \<longrightarrow>
        ''Body is not defined.'' \<in> set (errorsOf (validateMessage json_runtime blank_message)))"
  by (simp add: blank_message_def formatBody_def trim_def isWhiteSpace_def isJson_def try_catch_def
      validateMessage_errors bodyErrors_def uniquenessErrors_def attributeErrors_def)

text \<open>
  Claim C6. The error \<open>Attribute Name is not unique.\<close> occurs exactly once in the result
  of \<open>validateMessage\<close> when two attributes of the message share a name, however many do,
  and does not occur when the names are pairwise distinct.
\<close>

theorem validateMessage_unique_error_once:
  "count_list (errorsOf (validateMessage rt message)) ''Attribute Name is not unique.''
     = (if distinct (map name (attributes message)) then 0 else 1)"
  by (simp add: validateMessage_errors count_attributeErrors_unique bodyErrors_def uniquenessErrors_def)

theorem validateMessage_unique_error_once_witness:
  "count_list (errorsOf (validateMessage json_runtime faulty_message)) ''Attribute Name is not unique.'' = 1
   \<and> count_list (errorsOf (validateMessage json_runtime valid_message)) ''Attribute Name is not unique.'' = 0"
  using validateMessage_unique_error_once [of json_runtime faulty_message]
    validateMessage_unique_error_once [of json_runtime valid_message]
  by (simp add: faulty_message_def valid_message_def)

section \<open>The request builder\<close>

lemma attributeErrors_Nil_legal:
  assumes "attributeErrors rt message = []" and "a \<in> set (attributes message)"
  shows "type a \<in> {''String'', ''Number'', ''Binary''}"
proof -
  from assms(2) obtain i where i: "i < length (attributes message)" and a: "attributes message ! i = a"
    by (auto simp: in_set_conv_nth)
  then have "(i, a) \<in> set (enumerate 0 (attributes message))"
    by (simp add: in_set_enumerate_eq)
  with assms(1) have "spec_attributeErrors rt i a = []"
    by (force simp: attributeErrors_def)
  then show ?thesis
    by (simp add: spec_attributeErrors_def split: if_splits)
qed

lemma validateMessage_None_legal:
  assumes "validateMessage rt message = None"
  shows "distinct (map name (attributes message))"
    and "\<forall>a \<in> set (attributes message). type a \<in> {''String'', ''Number'', ''Binary''}"
proof -
  from assms have e: "bodyErrors message @ uniquenessErrors message @ attributeErrors rt message = []"
    by (simp add: validateMessage_None_iff validateMessage_errors)
  then show "distinct (map name (attributes message))"
    by (simp add: uniquenessErrors_def split: if_splits)
  from e have "attributeErrors rt message = []" by simp
  then show "\<forall>a \<in> set (attributes message). type a \<in> {''String'', ''Number'', ''Binary''}"
    using attributeErrors_Nil_legal by blast
qed

lemma mapAttribute_legal:
  "type a \<in> {''String'', ''Number'', ''Binary''} \<Longrightarrow> mapAttribute a = Inr (spec_wire a)"
  by (auto simp: mapAttribute_def spec_wire_def)

lemma reduceAttributes_legal:
  "\<forall>a \<in> set as. type a \<in> {''String'', ''Number'', ''Binary''} \<Longrightarrow>
     reduceAttributes as m = Inr (wireMap as m)"
  by (induction as arbitrary: m) (simp_all add: mapAttribute_legal)




lemma valid_message_validates: "validateMessage json_runtime valid_message = None"
  by (simp add: validateMessage_None_iff validateMessage_errors bodyErrors_def uniquenessErrors_def
      attributeErrors_def valid_message_def validate_eval runtime_simps enumerate_eq_zip upt_rec)

text \<open>
  Claim C4. For a message that \<open>validateMessage\<close> accepts (it returns \<open>undefined\<close>) and
  every queue URL, \<open>toRequest\<close> returns a request: the \<open>throw\<close> of \<open>mapAttribute\<close> is
  not reached.
\<close>

theorem toRequest_validated_succeeds:
  assumes "validateMessage rt message = None"
  shows "\<exists>request. toRequest queryUrl message = Inr request"
proof -
  from assms have "\<forall>a \<in> set (attributes message). type a \<in> {''String'', ''Number'', ''Binary''}"
    by (rule validateMessage_None_legal)
  then show ?thesis
    by (simp add: toRequest_def reduceAttributes_legal)
qed

theorem toRequest_validated_succeeds_witness:
  "validateMessage json_runtime valid_message = None
   \<and> (\<exists>request. toRequest ''https://sqs.example/queue'' valid_message = Inr request)"
  using toRequest_validated_succeeds [OF valid_message_validates, of "''https://sqs.example/queue''"]
    valid_message_validates
  by simp



section \<open>The reference runtime\<close>

subsection \<open>Digits\<close>












subsection \<open>Lexing printed text\<close>






















lemma delimited_simps [simp]:
  "delimited []" "delimited (CHR '','' # s)" "delimited (newline n @ s)"
  by (simp_all add: delimited_def newline_def)













subsection \<open>Parsing the token sequence of a value\<close>







subsection \<open>Parsed values are well-formed\<close>














subsection \<open>Printed text has no surrounding white space\<close>








section \<open>The body formatter\<close>



lemma formatBody_cases:
  "formatBody rt b =
     (if isJson (trim b)
      then (case JSON_parse rt (trim b) of
              Inl e \<Rightarrow> trim b
            | Inr obj \<Rightarrow> (case JSON_stringify rt obj of Inl e \<Rightarrow> trim b | Inr s \<Rightarrow> s))
      else trim b)"
  by (simp add: formatBody_def Let_def try_catch_def split: sum.splits)


text \<open>
  Claim C8. \<open>formatBody\<close> returns on every text, the \<open>catch\<close> absorbing whatever the
  runtime throws: when the trimmed text does not both begin with an opening and end with a
  closing brace, or \<open>JSON.parse\<close> throws on it, the result is exactly the trimmed text.
\<close>

theorem formatBody_absorbs_failure:
  "\<not> isJson (trim b) \<or> (\<exists>e. JSON_parse rt (trim b) = Inl e) \<Longrightarrow> formatBody rt b = trim b"
  by (auto simp: formatBody_cases)

theorem formatBody_absorbs_failure_witness:
  "\<not> isJson (trim '' hello '') \<and> formatBody json_runtime '' hello '' = ''hello''
   \<and> isJson (trim ''{nope} '') \<and> JSON_parse json_runtime (trim ''{nope} '') = Inl SyntaxError
   \<and> formatBody json_runtime ''{nope} '' = ''{nope}''"
proof -
  have t1: "trim '' hello '' = ''hello''" and t2: "trim ''{nope} '' = ''{nope}''"
    by (simp_all add: trim_def isWhiteSpace_def)
  have n: "\<not> isJson (trim '' hello '')"
    by (simp add: t1 isJson_def)
  have "JSON_parse json_runtime ''{nope}'' = Inl SyntaxError"
    by code_simp
  then have p: "JSON_parse json_runtime (trim ''{nope} '') = Inl SyntaxError"
    by (simp add: t2)
  have j: "isJson (trim ''{nope} '')"
    by (simp add: t2 isJson_def)
  from n have "formatBody json_runtime '' hello '' = trim '' hello ''"
    by (intro formatBody_absorbs_failure) simp
  moreover from p have "formatBody json_runtime ''{nope} '' = trim ''{nope} ''"
    by (intro formatBody_absorbs_failure) simp
  ultimately show ?thesis
    using n p j by (simp add: t1 t2)
qed



section \<open>The seed-data importer\<close>

text \<open>
  Claim C10. For an item without attributes \<open>toMessage\<close> throws (a TypeError) and
  produces no message: \<open>validateMessage\<close> is called on the item itself and reads its
  attributes, although the attributes of the message under construction have fallen back
  to the empty list.
\<close>

theorem toMessage_missing_attributes_throws:
  "item_attributes item = None \<Longrightarrow> toMessage rt item rnd = Inl TypeError"
  by (simp add: toMessage_def split_def Let_def split: option.splits)

theorem toMessage_missing_attributes_throws_witness:
  "item_attributes bare_item = None \<and> toMessage json_runtime bare_item counting = Inl TypeError"
  using toMessage_missing_attributes_throws [of bare_item json_runtime counting]
  by (simp add: bare_item_def)






end
